theory Spec2Isabelle
  imports Main "HOL-Library.Word"
begin

section \<open>Values, documents and identifiers\<close>

text \<open>
  A \<^verbatim>\<open>datetime\<close> is either offset-naive or offset-aware; the integer is its
  reading in microseconds (of the wall clock for a naive value, of UTC for an aware one).
  Python orders two datetimes of the same kind by that reading and raises
  \<^verbatim>\<open>TypeError\<close> when asked to order a naive and an aware one.
\<close>

datatype datetime = Naive int | Aware int

fun instant :: "datetime \<Rightarrow> int" where
  "instant (Naive t) = t"
| "instant (Aware t) = t"

fun is_aware :: "datetime \<Rightarrow> bool" where
  "is_aware (Naive t) = False"
| "is_aware (Aware t) = True"

text \<open>
  An \<^verbatim>\<open>ObjectId\<close> is kept as its canonical text: 24 lower-case hexadecimal digits.
\<close>

type_synonym oid = string

text \<open>
  The dynamically typed values of a JSON body or a stored document. A float is carried as its
  64-bit pattern; no arithmetic is done on it. A dictionary is an association list in
  insertion order.
\<close>

datatype jvalue =
    JNull
  | JBool bool
  | JInt int
  | JFloat "64 word"
  | JStr string
  | JTime datetime
  | JOid oid
  | JList "jvalue list"
  | JObj "(string \<times> jvalue) list"

type_synonym doc = "(string \<times> jvalue) list"

datatype error =
    ValidationError string
  | InvalidId string
  | TypeError
  | StoreError string

text \<open>Python truthiness of \<^verbatim>\<open>d.get(k)\<close>.\<close>

fun truthy :: "jvalue option \<Rightarrow> bool" where
  "truthy None = False"
| "truthy (Some JNull) = False"
| "truthy (Some (JBool b)) = b"
| "truthy (Some (JInt i)) = (i \<noteq> 0)"
| "truthy (Some (JFloat f)) = (f \<noteq> 0 \<and> f \<noteq> 0x8000000000000000)"
| "truthy (Some (JStr s)) = (s \<noteq> [])"
| "truthy (Some (JTime t)) = True"
| "truthy (Some (JOid i)) = True"
| "truthy (Some (JList xs)) = (xs \<noteq> [])"
| "truthy (Some (JObj kvs)) = (kvs \<noteq> [])"

text \<open>\<^verbatim>\<open>d[k] = v\<close>: an existing key keeps its place, a new key goes last.\<close>

fun dict_set :: "string \<Rightarrow> jvalue \<Rightarrow> doc \<Rightarrow> doc" where
  "dict_set k v [] = [(k, v)]"
| "dict_set k v ((k', v') # d) =
     (if k = k' then (k, v) # d else (k', v') # dict_set k v d)"

text \<open>\<^verbatim>\<open>d.setdefault(k, v)\<close>: the dictionary afterwards.\<close>

definition setdefault :: "string \<Rightarrow> jvalue \<Rightarrow> doc \<Rightarrow> doc" where
  "setdefault k v d = (case map_of d k of None \<Rightarrow> d @ [(k, v)] | Some x \<Rightarrow> d)"

subsection \<open>ObjectId\<close>

definition hexdigit :: "nat \<Rightarrow> char" where
  "hexdigit d = ''0123456789abcdef'' ! (d mod 16)"

text \<open>The text of the \<open>n\<close>-th identifier the store hands out.\<close>

fun hex_digits :: "nat \<Rightarrow> nat \<Rightarrow> string" where
  "hex_digits 0 n = []"
| "hex_digits (Suc k) n = hex_digits k (n div 16) @ [hexdigit n]"

definition hex24 :: "nat \<Rightarrow> oid" where
  "hex24 n = hex_digits 24 n"

definition is_hex :: "char \<Rightarrow> bool" where
  "is_hex c = (c \<in> set ''0123456789abcdefABCDEF'')"

definition lower :: "char \<Rightarrow> char" where
  "lower c =
     (if c = CHR ''A'' then CHR ''a'' else if c = CHR ''B'' then CHR ''b''
      else if c = CHR ''C'' then CHR ''c'' else if c = CHR ''D'' then CHR ''d''
      else if c = CHR ''E'' then CHR ''e'' else if c = CHR ''F'' then CHR ''f'' else c)"

text \<open>
  \<^verbatim>\<open>ObjectId(s)\<close> of the bson library, for a string: 24 hexadecimal digits give the
  identifier, anything else raises \<^verbatim>\<open>InvalidId\<close>.
\<close>

definition ObjectId :: "string \<Rightarrow> error + oid" where
  "ObjectId s =
     (if length s = 24 \<and> list_all is_hex s then Inr (map lower s) else Inl (InvalidId s))"

text \<open>\<^verbatim>\<open>ObjectId(v)\<close> for a value read from a dictionary.\<close>

fun ObjectId_of :: "jvalue option \<Rightarrow> error + oid" where
  "ObjectId_of (Some (JStr s)) = ObjectId s"
| "ObjectId_of (Some (JOid i)) = Inr i"
| "ObjectId_of _ = Inl TypeError"

section \<open>The server: clock and document store\<close>

text \<open>
  The state a request runs against. \<open>colls\<close> holds, per collection name, the stored documents
  in insertion order, each beside its \<^verbatim>\<open>_id\<close>. \<open>clk n\<close> is the \<open>n\<close>-th reading of the
  server clock (UTC microseconds) and \<open>ticks\<close> counts the readings taken so far.
  \<open>refuse c d\<close> is the message of the exception with which the store refuses to insert
  document \<open>d\<close> into collection \<open>c\<close>, if it does. No operation changes \<open>clk\<close> or \<open>refuse\<close>.
\<close>

record world =
  colls :: "string \<Rightarrow> (oid \<times> doc) list"
  next_oid :: nat
  ticks :: nat
  clk :: "nat \<Rightarrow> int"
  refuse :: "string \<Rightarrow> doc \<Rightarrow> string option"

text \<open>\<^verbatim>\<open>datetime.now(timezone.utc)\<close>\<close>

definition now :: "world \<Rightarrow> datetime \<times> world" where
  "now w = (Aware (clk w (ticks w)), w\<lparr>ticks := Suc (ticks w)\<rparr>)"

text \<open>
  Modelled from the spec: the Document Store Adapter (module \<^verbatim>\<open>database\<close>, imported by
  \<^verbatim>\<open>main.py\<close> and not among the sources), "a document store exposing
  insert(collection, doc) -> id, find_one(collection, id) -> doc | absent and
  update(collection, id, patch)", whose ids are store-assigned and opaque.
  \<open>create_document\<close> returns the text of the new id, or the message of the exception raised.
\<close>

definition create_document :: "string \<Rightarrow> doc \<Rightarrow> world \<Rightarrow> (string + string) \<times> world" where
  "create_document c d w =
     (case refuse w c d of
        Some msg \<Rightarrow> (Inl msg, w)
      | None \<Rightarrow>
          (Inr (hex24 (next_oid w)),
           w\<lparr>colls := (colls w)(c := colls w c @ [(hex24 (next_oid w), d)]),
             next_oid := Suc (next_oid w)\<rparr>))"

definition find_one :: "string \<Rightarrow> oid \<Rightarrow> world \<Rightarrow> (oid \<times> doc) option" where
  "find_one c i w = map_option (\<lambda>d. (i, d)) (map_of (colls w c) i)"

fun update_first :: "oid \<Rightarrow> (doc \<Rightarrow> doc) \<Rightarrow> (oid \<times> doc) list \<Rightarrow> (oid \<times> doc) list" where
  "update_first i f [] = []"
| "update_first i f ((j, d) # xs) =
     (if i = j then (j, f d) # xs else (j, d) # update_first i f xs)"

text \<open>
  \<^verbatim>\<open>update_one({"_id": i}, {"$set": patch})\<close>: the first document with that id gets the
  fields of the patch; without such a document nothing changes.
\<close>

definition update_one :: "string \<Rightarrow> oid \<Rightarrow> doc \<Rightarrow> world \<Rightarrow> world" where
  "update_one c i patch w =
     w\<lparr>colls := (colls w)(c := update_first i (\<lambda>d. fold (\<lambda>(k, v). dict_set k v) patch d) (colls w c))\<rparr>"

section \<open>Payload classes\<close>

text \<open>
  A pydantic model class is the list of its fields in declaration order, each with its default:
  \<open>None\<close> for a required field, \<open>Some JNull\<close> for \<^verbatim>\<open>= None\<close>. A request body is the
  decoded JSON object, each value already of the declared type; an absent key is an omitted
  field and \<open>JNull\<close> an explicit null. None of the classes of \<^verbatim>\<open>main.py\<close> restricts a
  string field to an enumeration.
\<close>

type_synonym model_class = "(string \<times> jvalue option) list"

definition CreateVehiclePayload :: model_class where
  "CreateVehiclePayload =
     [(''vin'', Some JNull),
      (''make'', Some JNull),
      (''model'', Some JNull),
      (''year'', Some JNull),
      (''engine_condition'', Some (JStr ''unknown'')),
      (''body_condition'', Some (JStr ''unknown'')),
      (''damage_level'', Some (JStr ''unknown'')),
      (''photos'', Some JNull),
      (''last_known_location'', Some JNull),
      (''owner_id'', Some JNull),
      (''status'', Some (JStr ''unknown''))]"

definition EventPayload :: model_class where
  "EventPayload =
     [(''vehicle_id'', Some JNull),
      (''event_type'', None),
      (''actor_id'', Some JNull),
      (''notes'', Some JNull),
      (''metadata'', Some JNull),
      (''location'', Some JNull),
      (''occurred_at'', Some JNull)]"

definition PartPayload :: model_class where
  "PartPayload =
     [(''vehicle_id'', Some JNull),
      (''name'', None),
      (''serial_number'', Some JNull),
      (''condition'', Some (JStr ''unknown'')),
      (''location'', Some JNull),
      (''price_etb'', Some JNull)]"

text \<open>
  Building the model from a body: an omitted field takes its default, a required field that is
  omitted or null is a validation error naming the field, keys that are not declared are dropped.
\<close>

fun validate :: "model_class \<Rightarrow> doc \<Rightarrow> error + doc" where
  "validate [] body = Inr []"
| "validate ((k, dflt) # fs) body =
     (case (case map_of body k of
              None \<Rightarrow> (case dflt of None \<Rightarrow> Inl (ValidationError k) | Some v \<Rightarrow> Inr v)
            | Some JNull \<Rightarrow> (case dflt of None \<Rightarrow> Inl (ValidationError k) | Some v \<Rightarrow> Inr JNull)
            | Some v \<Rightarrow> Inr v) of
        Inl e \<Rightarrow> Inl e
      | Inr v \<Rightarrow> (case validate fs body of Inl e \<Rightarrow> Inl e | Inr p \<Rightarrow> Inr ((k, v) # p)))"

text \<open>\<^verbatim>\<open>payload.model_dump(exclude_none=True)\<close>\<close>

definition model_dump_exclude_none :: "doc \<Rightarrow> doc" where
  "model_dump_exclude_none p = filter (\<lambda>(k, v). v \<noteq> JNull) p"

text \<open>The enumerations of \<^verbatim>\<open>schemas.py\<close>, which \<^verbatim>\<open>main.py\<close> does not import.\<close>

definition ConditionLevel :: "string list" where
  "ConditionLevel = [''good'', ''fair'', ''poor'', ''unknown'']"

definition DamageLevel :: "string list" where
  "DamageLevel = [''none'', ''minor'', ''moderate'', ''severe'', ''unknown'']"

definition VehicleStatus :: "string list" where
  "VehicleStatus = [''imported'', ''active'', ''dismantled'', ''scrapped'', ''sold'', ''unknown'']"

definition PartCondition :: "string list" where
  "PartCondition = [''new'', ''used'', ''damaged'', ''unknown'']"

definition EventType :: "string list" where
  "EventType =
     [''ownership_change'', ''dismantling'', ''recycling'', ''scrap'', ''inspection'',
      ''location_update'', ''note'']"

section \<open>Request handlers\<close>

text \<open>
  A handler returns its response, or the exception that leaves it, beside the state of the
  server afterwards: what was written before an exception stays written.
\<close>

fun serialize_value :: "jvalue \<Rightarrow> jvalue" where
  "serialize_value (JOid i) = JStr i"
| "serialize_value v = v"

text \<open>
  \<^verbatim>\<open>_serialize\<close>: \<^verbatim>\<open>_id\<close> leaves the document and comes back as the string field
  \<^verbatim>\<open>id\<close>; ObjectId values become strings. An absent document is returned as it is.
\<close>

definition serialize :: "(oid \<times> doc) option \<Rightarrow> doc option" where
  "serialize found =
     (case found of
        None \<Rightarrow> None
      | Some (i, d) \<Rightarrow> Some (map (\<lambda>(k, v). (k, serialize_value v)) (dict_set ''id'' (JOid i) d)))"

text \<open>The handlers of \<^verbatim>\<open>POST /api/vehicles\<close> and \<^verbatim>\<open>POST /api/parts\<close>.\<close>

definition create_in :: "string \<Rightarrow> doc \<Rightarrow> world \<Rightarrow> (error + doc option) \<times> world" where
  "create_in c payload w =
     (let data = model_dump_exclude_none payload in
      case create_document c data w of
        (Inl msg, w1) \<Rightarrow> (Inl (StoreError msg), w1)
      | (Inr inserted_id, w1) \<Rightarrow>
          (case ObjectId inserted_id of
             Inl e \<Rightarrow> (Inl e, w1)
           | Inr i \<Rightarrow> (Inr (serialize (find_one c i w1)), w1)))"

definition create_vehicle :: "doc \<Rightarrow> world \<Rightarrow> (error + doc option) \<times> world" where
  "create_vehicle payload w = create_in ''vehicle'' payload w"

definition register_part :: "doc \<Rightarrow> world \<Rightarrow> (error + doc option) \<times> world" where
  "register_part payload w = create_in ''part'' payload w"

text \<open>The status the rule writes for an event type that triggers it.\<close>

definition new_status :: "jvalue option \<Rightarrow> jvalue" where
  "new_status et = (if et = Some (JStr ''dismantling'') then JStr ''dismantled'' else JStr ''scrapped'')"

text \<open>
  \<^verbatim>\<open>log_event\<close>. The arguments of \<^verbatim>\<open>update_one\<close> are evaluated left to right:
  \<^verbatim>\<open>ObjectId(data["vehicle_id"])\<close> first, the clock reading for \<^verbatim>\<open>updated_at\<close> after it.
\<close>

definition log_event :: "doc \<Rightarrow> world \<Rightarrow> (error + doc option) \<times> world" where
  "log_event payload w =
     (let data0 = model_dump_exclude_none payload;
          (t, w1) = now w;
          data = setdefault ''occurred_at'' (JTime t) data0 in
      case create_document ''event'' data w1 of
        (Inl msg, w2) \<Rightarrow> (Inl (StoreError msg), w2)
      | (Inr inserted_id, w2) \<Rightarrow>
          (case ObjectId inserted_id of
             Inl e \<Rightarrow> (Inl e, w2)
           | Inr i \<Rightarrow>
               (let ev = find_one ''event'' i w2 in
                if truthy (map_of data ''vehicle_id'')
                   \<and> (map_of data ''event_type'' = Some (JStr ''dismantling'')
                      \<or> map_of data ''event_type'' = Some (JStr ''scrap''))
                then
                  (case ObjectId_of (map_of data ''vehicle_id'') of
                     Inl e \<Rightarrow> (Inl e, w2)
                   | Inr v \<Rightarrow>
                       (let (t2, w3) = now w2 in
                        (Inr (serialize ev),
                         update_one ''vehicle'' v
                           [(''status'', new_status (map_of data ''event_type'')),
                            (''updated_at'', JTime t2)] w3)))
                else (Inr (serialize ev), w2))))"

text \<open>The endpoints: the body is validated against the payload class, then handed over.\<close>

definition endpoint ::
  "model_class \<Rightarrow> (doc \<Rightarrow> world \<Rightarrow> (error + doc option) \<times> world) \<Rightarrow> doc \<Rightarrow> world
     \<Rightarrow> (error + doc option) \<times> world" where
  "endpoint cls handler body w =
     (case validate cls body of Inl e \<Rightarrow> (Inl e, w) | Inr payload \<Rightarrow> handler payload w)"

definition post_vehicles :: "doc \<Rightarrow> world \<Rightarrow> (error + doc option) \<times> world" where
  "post_vehicles = endpoint CreateVehiclePayload create_vehicle"

definition post_events :: "doc \<Rightarrow> world \<Rightarrow> (error + doc option) \<times> world" where
  "post_events = endpoint EventPayload log_event"

definition post_parts :: "doc \<Rightarrow> world \<Rightarrow> (error + doc option) \<times> world" where
  "post_parts = endpoint PartPayload register_part"

section \<open>Sync\<close>

record Mutation =
  op :: string
  data :: doc
  client_id :: string
  client_timestamp :: datetime

record SyncResponse =
  results :: "doc list"
  server_time :: datetime

text \<open>
  \<^verbatim>\<open>sorted(envelope.mutations, key=lambda x: x.client_timestamp)\<close>: a stable sort; it
  raises \<^verbatim>\<open>TypeError\<close> when the keys are not all naive or all aware.
\<close>

definition comparable :: "Mutation list \<Rightarrow> bool" where
  "comparable ms =
     (list_all (\<lambda>m. is_aware (client_timestamp m)) ms
      \<or> list_all (\<lambda>m. \<not> is_aware (client_timestamp m)) ms)"

definition sorted_mutations :: "Mutation list \<Rightarrow> error + Mutation list" where
  "sorted_mutations ms =
     (if comparable ms then Inr (sort_key (\<lambda>m. instant (client_timestamp m)) ms)
      else Inl TypeError)"

text \<open>A successful insert or the caught exception, as the entry of the result list.\<close>

definition result_of :: "string \<Rightarrow> (string + string) \<Rightarrow> doc" where
  "result_of opn r =
     (case r of
        Inr inserted_id \<Rightarrow> [(''op'', JStr opn), (''status'', JStr ''ok''), (''id'', JStr inserted_id)]
      | Inl msg \<Rightarrow> [(''op'', JStr opn), (''status'', JStr ''error''), (''error'', JStr msg)])"

text \<open>The body of the loop of \<^verbatim>\<open>sync\<close>: one mutation, its entry in the result list.\<close>

definition apply_mutation :: "Mutation \<Rightarrow> world \<Rightarrow> doc \<times> world" where
  "apply_mutation m w =
     (if op m = ''createVehicle'' then
        (case create_document ''vehicle'' (data m) w of (r, w1) \<Rightarrow> (result_of (op m) r, w1))
      else if op m = ''logEvent'' then
        (let (t, w1) = now w in
         case create_document ''event'' (setdefault ''occurred_at'' (JTime t) (data m)) w1 of
           (r, w2) \<Rightarrow> (result_of (op m) r, w2))
      else if op m = ''registerPart'' then
        (case create_document ''part'' (data m) w of (r, w1) \<Rightarrow> (result_of (op m) r, w1))
      else
        ([(''op'', JStr (op m)), (''status'', JStr ''ignored''), (''reason'', JStr ''unknown op'')], w))"

fun sync_loop :: "Mutation list \<Rightarrow> world \<Rightarrow> doc list \<times> world" where
  "sync_loop [] w = ([], w)"
| "sync_loop (m # ms) w =
     (case apply_mutation m w of
        (r, w1) \<Rightarrow> (case sync_loop ms w1 of (rs, w2) \<Rightarrow> (r # rs, w2)))"

definition sync :: "Mutation list \<Rightarrow> world \<Rightarrow> (error + SyncResponse) \<times> world" where
  "sync mutations w =
     (case sorted_mutations mutations of
        Inl e \<Rightarrow> (Inl e, w)
      | Inr ms \<Rightarrow>
          (case sync_loop ms w of
             (rs, w1) \<Rightarrow>
               (case now w1 of
                  (t, w2) \<Rightarrow> (Inr \<lparr>results = rs, server_time = t\<rparr>, w2))))"

section \<open>Vocabulary of the properties\<close>

text \<open>The operations the dispatch of \<^verbatim>\<open>sync\<close> knows, and the three shapes of a result.\<close>

definition known_op :: "Mutation \<Rightarrow> bool" where
  "known_op m = (op m = ''createVehicle'' \<or> op m = ''logEvent'' \<or> op m = ''registerPart'')"

definition ignored_result :: "string \<Rightarrow> doc" where
  "ignored_result opn =
     [(''op'', JStr opn), (''status'', JStr ''ignored''), (''reason'', JStr ''unknown op'')]"

fun well_formed_result :: "string \<Rightarrow> doc \<Rightarrow> bool" where
  "well_formed_result opn [(k1, JStr o1), (k2, JStr s), (k3, JStr x)] =
     (k1 = ''op'' \<and> o1 = opn \<and> k2 = ''status''
      \<and> ((s = ''ok'' \<and> k3 = ''id'') \<or> (s = ''ignored'' \<and> k3 = ''reason'')
          \<or> (s = ''error'' \<and> k3 = ''error'')))"
| "well_formed_result opn r = False"


text \<open>
  The document \<^verbatim>\<open>log_event\<close> inserts for a payload: the dump of the payload without its
  null fields, with \<^verbatim>\<open>occurred_at\<close> defaulted to the clock reading taken first.
\<close>

definition event_data :: "doc \<Rightarrow> world \<Rightarrow> doc" where
  "event_data payload w =
     setdefault ''occurred_at'' (JTime (Aware (clk w (ticks w)))) (model_dump_exclude_none payload)"


section \<open>Concrete inputs\<close>

text \<open>
  An empty store whose clock reads 0, 1, 2, ... and which refuses nothing.
\<close>

definition w0 :: world where
  "w0 = \<lparr>colls = (\<lambda>c. []), next_oid = 0, ticks = 0, clk = (\<lambda>n. int n), refuse = (\<lambda>c d. None)\<rparr>"

text \<open>
  The end-to-end batch: a vehicle is created, then a dismantling event refers to it by the id
  the store gives the first document.
\<close>

definition batch_dismantle :: "Mutation list" where
  "batch_dismantle =
     [\<lparr>op = ''createVehicle'', data = [(''vin'', JStr ''X1'')], client_id = ''c1'',
       client_timestamp = Aware 1\<rparr>,
      \<lparr>op = ''logEvent'',
       data = [(''event_type'', JStr ''dismantling''),
               (''vehicle_id'', JStr ''000000000000000000000000'')],
       client_id = ''c1'', client_timestamp = Aware 2\<rparr>]"

text \<open>
  Batches with an unknown operation and with timestamps of both kinds, a store that refuses every
  insert, and one mutation of each known operation.
\<close>

definition batch_unknown :: "Mutation list" where
  "batch_unknown =
     [\<lparr>op = ''foo'', data = [], client_id = ''c1'', client_timestamp = Aware 2\<rparr>,
      \<lparr>op = ''createVehicle'', data = [(''vin'', JStr ''X1'')], client_id = ''c1'',
       client_timestamp = Aware 1\<rparr>]"

definition batch_unknown_mixed :: "Mutation list" where
  "batch_unknown_mixed =
     [\<lparr>op = ''foo'', data = [], client_id = ''c1'', client_timestamp = Naive 1\<rparr>,
      \<lparr>op = ''createVehicle'', data = [(''vin'', JStr ''X1'')], client_id = ''c2'',
       client_timestamp = Aware 2\<rparr>]"






text \<open>
  A store holding one vehicle, and the validated payload of an event of a given type that
  refers to it.
\<close>

definition vehicle0 :: oid where
  "vehicle0 = ''000000000000000000000000''"

definition w_one :: world where
  "w_one =
     \<lparr>colls = (\<lambda>c. if c = ''vehicle''
                    then [(vehicle0, [(''vin'', JStr ''X1''), (''status'', JStr ''unknown'')])]
                    else []),
      next_oid = 1, ticks = 0, clk = (\<lambda>n. int n), refuse = (\<lambda>c d. None)\<rparr>"

definition event_payload :: "string \<Rightarrow> doc" where
  "event_payload et =
     [(''vehicle_id'', JStr vehicle0), (''event_type'', JStr et), (''actor_id'', JNull),
      (''notes'', JNull), (''metadata'', JNull), (''location'', JNull), (''occurred_at'', JNull)]"

text \<open>
  Request bodies with an explicit null: a vehicle with a null \<open>status\<close>, a part with a null
  \<open>serial_number\<close>, and an event with a null \<open>notes\<close> and a null \<open>occurred_at\<close>.
\<close>

definition body_vehicle_null :: doc where
  "body_vehicle_null = [(''vin'', JStr ''X1''), (''status'', JNull)]"

definition body_part_null :: doc where
  "body_part_null = [(''name'', JStr ''door''), (''serial_number'', JNull)]"

definition body_event_null :: doc where
  "body_event_null = [(''event_type'', JStr ''note''), (''notes'', JNull), (''occurred_at'', JNull)]"


section \<open>Properties\<close>

subsection \<open>Auxiliary facts about the loop of sync\<close>

lemma apply_mutation_unknown:
  "\<not> known_op m \<Longrightarrow> apply_mutation m w = (ignored_result (op m), w)"
  by (simp add: apply_mutation_def known_op_def ignored_result_def)

lemma result_of_status:
  "map_of (result_of opn r) ''status'' \<noteq> Some (JStr ''ignored'')"
  by (cases r) (simp_all add: result_of_def)

lemma result_of_well_formed: "well_formed_result opn (result_of opn r)"
  by (cases r) (simp_all add: result_of_def)

lemma apply_mutation_known_status:
  "known_op m \<Longrightarrow> map_of (fst (apply_mutation m w)) ''status'' \<noteq> Some (JStr ''ignored'')"
  by (auto simp: apply_mutation_def known_op_def now_def result_of_status split: prod.splits)

lemma apply_mutation_well_formed: "well_formed_result (op m) (fst (apply_mutation m w))"
  by (auto simp: apply_mutation_def now_def result_of_well_formed split: prod.splits)


lemma sync_loop_filter_known:
  "sync_loop (filter known_op ms) w =
     (filter (\<lambda>r. map_of r ''status'' \<noteq> Some (JStr ''ignored'')) (fst (sync_loop ms w)),
      snd (sync_loop ms w))"
proof (induction ms arbitrary: w)
  case Nil
  show ?case by simp
next
  case (Cons m ms)
  show ?case
  proof (cases "known_op m")
    case True
    obtain r w1 where s: "apply_mutation m w = (r, w1)" by (cases "apply_mutation m w")
    from True s have "map_of r ''status'' \<noteq> Some (JStr ''ignored'')"
      using apply_mutation_known_status [of m w] by simp
    with True s Cons.IH [of w1] show ?thesis by (simp add: case_prod_beta)
  next
    case False
    with Cons.IH [of w] show ?thesis
      by (simp add: apply_mutation_unknown ignored_result_def case_prod_beta)
  qed
qed

lemma sync_loop_results:
  "list_all2 (\<lambda>m r. well_formed_result (op m) r \<and> (\<not> known_op m \<longrightarrow> r = ignored_result (op m)))
     ms (fst (sync_loop ms w))"
proof (induction ms arbitrary: w)
  case Nil
  show ?case by simp
next
  case (Cons m ms)
  obtain r w1 where s: "apply_mutation m w = (r, w1)" by (cases "apply_mutation m w")
  have "well_formed_result (op m) r" using apply_mutation_well_formed [of m w] s by simp
  moreover have "\<not> known_op m \<longrightarrow> r = ignored_result (op m)"
    using apply_mutation_unknown [of m w] s by simp
  ultimately show ?case using Cons.IH [of w1] s by (simp add: case_prod_beta)
qed

lemma create_document_clk [simp]: "clk (snd (create_document c d w)) = clk w"
  by (simp add: create_document_def split: option.splits)

lemma create_document_refuse [simp]: "refuse (snd (create_document c d w)) = refuse w"
  by (simp add: create_document_def split: option.splits)

lemma create_document_ticks [simp]: "ticks (snd (create_document c d w)) = ticks w"
  by (simp add: create_document_def split: option.splits)

lemma apply_mutation_clk [simp]: "clk (snd (apply_mutation m w)) = clk w"
  by (simp add: apply_mutation_def now_def case_prod_beta)

lemma apply_mutation_refuse [simp]: "refuse (snd (apply_mutation m w)) = refuse w"
  by (simp add: apply_mutation_def now_def case_prod_beta)


lemma sync_loop_clk [simp]: "clk (snd (sync_loop ms w)) = clk w"
  by (induction ms arbitrary: w) (simp_all add: case_prod_beta)

lemma sync_loop_refuse [simp]: "refuse (snd (sync_loop ms w)) = refuse w"
  by (induction ms arbitrary: w) (simp_all add: case_prod_beta)



lemma comparable_filter: "comparable ms \<Longrightarrow> comparable (filter P ms)"
  by (auto simp: comparable_def list_all_iff)

lemma sorted_mutations_Inr:
  "sorted_mutations ms = Inr ms' \<longleftrightarrow>
     comparable ms \<and> ms' = sort_key (\<lambda>m. instant (client_timestamp m)) ms"
  by (auto simp: sorted_mutations_def)

lemma sorted_mutations_Inl: "sorted_mutations ms = Inl e \<longleftrightarrow> \<not> comparable ms \<and> e = TypeError"
  by (auto simp: sorted_mutations_def)


lemma sync_Inr:
  "sorted_mutations ms = Inr ms' \<Longrightarrow>
   sync ms w =
     (Inr \<lparr>results = fst (sync_loop ms' w),
           server_time = Aware (clk w (ticks (snd (sync_loop ms' w))))\<rparr>,
      (snd (sync_loop ms' w))\<lparr>ticks := Suc (ticks (snd (sync_loop ms' w)))\<rparr>)"
  by (simp add: sync_def now_def case_prod_beta)





subsection \<open>Auxiliary facts about identifiers, dictionaries and log_event\<close>

lemma length_hex_digits [simp]: "length (hex_digits k n) = k"
  by (induction k arbitrary: n) simp_all

lemma hexdigit_mem: "hexdigit d \<in> set ''0123456789abcdef''"
  unfolding hexdigit_def by (rule nth_mem) simp

lemma hex_digits_set: "set (hex_digits k n) \<subseteq> set ''0123456789abcdef''"
proof (induction k arbitrary: n)
  case 0
  show ?case by simp
next
  case (Suc k)
  from Suc.IH [of "n div 16"] hexdigit_mem [of n] show ?case by simp
qed

lemma lower_hex_is_hex: "c \<in> set ''0123456789abcdef'' \<Longrightarrow> is_hex c \<and> lower c = c"
  by (auto simp: is_hex_def lower_def)

lemma ObjectId_hex24 [simp]: "ObjectId (hex24 n) = Inr (hex24 n)"
proof -
  have a: "\<forall>c \<in> set (hex24 n). is_hex c \<and> lower c = c"
    using hex_digits_set [of 24 n] lower_hex_is_hex by (auto simp: hex24_def)
  then have "list_all is_hex (hex24 n)" by (simp add: list_all_iff)
  moreover from a have "map lower (hex24 n) = hex24 n" by (simp add: map_idI)
  moreover have "length (hex24 n) = 24" by (simp add: hex24_def)
  ultimately show ?thesis by (simp add: ObjectId_def)
qed

lemma ObjectId_nonempty: "ObjectId s = Inr v \<Longrightarrow> s \<noteq> []"
  by (auto simp: ObjectId_def split: if_splits)

lemma map_of_model_dump:
  "map_of p k = Some v \<Longrightarrow> v \<noteq> JNull \<Longrightarrow> map_of (model_dump_exclude_none p) k = Some v"
  by (induction p) (auto simp: model_dump_exclude_none_def split: if_splits)

lemma map_of_setdefault:
  "map_of (setdefault k v d) k' =
     (case map_of d k' of Some x \<Rightarrow> Some x | None \<Rightarrow> if k' = k then Some v else None)"
  by (auto simp: setdefault_def map_add_def split: option.splits)

lemma map_of_event_data:
  "map_of p k = Some v \<Longrightarrow> v \<noteq> JNull \<Longrightarrow> map_of (event_data p w) k = Some v"
  by (simp add: event_data_def map_of_setdefault map_of_model_dump)

lemma map_of_dict_set:
  "map_of (dict_set k v d) k' = (if k' = k then Some v else map_of d k')"
  by (induction d) auto

lemma dict_set_same: "map_of d k = Some v \<Longrightarrow> dict_set k v d = d"
  by (induction d) (auto split: if_splits)

lemma map_fst_dict_set: "map_of d k = Some x \<Longrightarrow> map fst (dict_set k v d) = map fst d"
  by (induction d) (auto split: if_splits)

lemma map_of_update_first:
  "map_of (update_first i f xs) j = (if j = i then map_option f (map_of xs i) else map_of xs j)"
  by (induction xs) auto

lemma find_one_update_one:
  "find_one c j (update_one c i patch w) =
     (if j = i then map_option (\<lambda>(i, d). (i, fold (\<lambda>(k, v). dict_set k v) patch d)) (find_one c i w)
      else find_one c j w)"
  by (auto simp: find_one_def update_one_def map_of_update_first option.map_comp comp_def)

lemma log_event_plain:
  assumes "refuse w ''event'' (event_data p w) = None"
      and "\<not> (truthy (map_of (event_data p w) ''vehicle_id'')
             \<and> (map_of (event_data p w) ''event_type'' = Some (JStr ''dismantling'')
                \<or> map_of (event_data p w) ''event_type'' = Some (JStr ''scrap'')))"
  shows "(\<exists>r. fst (log_event p w) = Inr r)
       \<and> colls (snd (log_event p w)) =
           (colls w)(''event'' := colls w ''event'' @ [(hex24 (next_oid w), event_data p w)])
       \<and> ticks (snd (log_event p w)) = Suc (ticks w)
       \<and> next_oid (snd (log_event p w)) = Suc (next_oid w)
       \<and> clk (snd (log_event p w)) = clk w
       \<and> refuse (snd (log_event p w)) = refuse w"
  using assms
  by (auto simp add: log_event_def now_def create_document_def event_data_def Let_def)

lemma log_event_rule:
  assumes "refuse w ''event'' (event_data p w) = None"
      and "map_of (event_data p w) ''vehicle_id'' = Some (JStr s)"
      and "ObjectId s = Inr v"
      and "map_of (event_data p w) ''event_type'' = Some (JStr ''dismantling'')
           \<or> map_of (event_data p w) ''event_type'' = Some (JStr ''scrap'')"
  shows "(\<exists>r. fst (log_event p w) = Inr r)
       \<and> colls (snd (log_event p w)) =
           (colls w)
             (''event'' := colls w ''event'' @ [(hex24 (next_oid w), event_data p w)],
              ''vehicle'' :=
                 update_first v
                   (\<lambda>d. dict_set ''updated_at'' (JTime (Aware (clk w (Suc (ticks w)))))
                          (dict_set ''status'' (new_status (map_of (event_data p w) ''event_type'')) d))
                   (colls w ''vehicle''))
       \<and> ticks (snd (log_event p w)) = Suc (Suc (ticks w))
       \<and> next_oid (snd (log_event p w)) = Suc (next_oid w)
       \<and> clk (snd (log_event p w)) = clk w
       \<and> refuse (snd (log_event p w)) = refuse w"
proof -
  from assms(3) have "s \<noteq> []" by (rule ObjectId_nonempty)
  with assms show ?thesis
    by (auto simp add: log_event_def now_def create_document_def event_data_def Let_def
        update_one_def)
qed

lemma find_one_rule:
  assumes "find_one ''vehicle'' v w = Some (v, d)"
      and "colls w' = (colls w)(''event'' := es, ''vehicle'' := update_first v f (colls w ''vehicle''))"
  shows "find_one ''vehicle'' u w' = (if u = v then Some (v, f d) else find_one ''vehicle'' u w)"
  using assms by (auto simp: find_one_def map_of_update_first)

lemma ObjectId_vehicle0: "ObjectId vehicle0 = Inr vehicle0"
  unfolding vehicle0_def by code_simp

lemma find_one_w_one:
  "find_one ''vehicle'' vehicle0 w_one =
     Some (vehicle0, [(''vin'', JStr ''X1''), (''status'', JStr ''unknown'')])"
  by (simp add: find_one_def w_one_def)

subsection \<open>Validation and the dump without nulls\<close>

lemma validate_Cons_Inr:
  "validate ((k, dflt) # fs) body = Inr p \<Longrightarrow>
   \<exists>v p'. p = (k, v) # p' \<and> validate fs body = Inr p'
     \<and> (map_of body k = Some JNull \<longrightarrow> v = JNull)
     \<and> (map_of body k = None \<longrightarrow> dflt = Some v)
     \<and> (\<forall>x. map_of body k = Some x \<longrightarrow> v = x)"
  by (auto split: option.splits sum.splits jvalue.splits)

lemma validate_null:
  "validate cls body = Inr p \<Longrightarrow> map_of body k = Some JNull \<Longrightarrow>
   map_of (model_dump_exclude_none p) k = None"
proof (induction cls arbitrary: p)
  case Nil
  then show ?case by (simp add: model_dump_exclude_none_def)
next
  case (Cons f fs)
  obtain k' dflt where f: "f = (k', dflt)" by (cases f)
  from Cons.prems(1) [unfolded f] obtain v p' where
    p: "p = (k', v) # p'" and r: "validate fs body = Inr p'"
    and n: "map_of body k' = Some JNull \<longrightarrow> v = JNull"
    by (blast dest: validate_Cons_Inr)
  from Cons.IH [OF r Cons.prems(2)]
  have "map_of (model_dump_exclude_none p') k = None" .
  with p n Cons.prems(2) show ?case
    by (auto simp: model_dump_exclude_none_def)
qed


lemma validate_default:
  "validate cls body = Inr p \<Longrightarrow> distinct (map fst cls) \<Longrightarrow> map_of cls k = Some (Some v) \<Longrightarrow>
   v \<noteq> JNull \<Longrightarrow> map_of body k = None \<Longrightarrow> map_of (model_dump_exclude_none p) k = Some v"
proof (induction cls arbitrary: p)
  case Nil
  then show ?case by simp
next
  case (Cons f fs)
  obtain k' dflt where f: "f = (k', dflt)" by (cases f)
  from Cons.prems(1) [unfolded f] obtain v' p' where
    p: "p = (k', v') # p'" and r: "validate fs body = Inr p'"
    and d: "map_of body k' = None \<longrightarrow> dflt = Some v'"
    by (blast dest: validate_Cons_Inr)
  show ?case
  proof (cases "k = k'")
    case True
    with Cons.prems f have "dflt = Some v" by simp
    with d True Cons.prems(5) have "v' = v" by simp
    with True p Cons.prems(4) show ?thesis by (simp add: model_dump_exclude_none_def)
  next
    case False
    with Cons.prems f have "distinct (map fst fs)" and "map_of fs k = Some (Some v)" by auto
    from Cons.IH [OF r this Cons.prems(4,5)] False p show ?thesis
      by (auto simp: model_dump_exclude_none_def)
  qed
qed

lemma create_in_Inr:
  "fst (create_in c p w) = Inr r \<Longrightarrow>
   colls (snd (create_in c p w)) c = colls w c @ [(hex24 (next_oid w), model_dump_exclude_none p)]"
  by (auto simp: create_in_def create_document_def Let_def split: option.splits)

lemma log_event_Inr:
  "fst (log_event p w) = Inr r \<Longrightarrow>
   colls (snd (log_event p w)) ''event'' = colls w ''event'' @ [(hex24 (next_oid w), event_data p w)]"
  by (auto simp: log_event_def create_document_def now_def event_data_def update_one_def Let_def
      split: option.splits sum.splits if_splits)

lemma endpoint_Inr:
  "fst (endpoint cls handler body w) = Inr r \<Longrightarrow>
   \<exists>p. validate cls body = Inr p \<and> endpoint cls handler body w = handler p w"
  by (auto simp: endpoint_def split: sum.splits)

lemma distinct_classes:
  "distinct (map fst CreateVehiclePayload)" "distinct (map fst PartPayload)"
  by (simp_all add: CreateVehiclePayload_def PartPayload_def)



subsection \<open>The events a request stores\<close>






subsection \<open>C1: a logEvent mutation of a sync batch runs the rule engine\<close>

text \<open>
  C1 says that sync persists each logEvent mutation and then invokes the rule engine, so that
  a batch creating a vehicle and then logging a dismantling event for it leaves the vehicle's
  status "dismantled". The logEvent branch of \<^verbatim>\<open>sync\<close> only inserts the event; the
  status update exists in \<^verbatim>\<open>log_event\<close> alone. On the end-to-end batch both mutations
  are reported ok and the vehicle is stored as the client sent it, with no status field.
\<close>

theorem sync_logEvent_leaves_vehicle_status:
  "fst (sync batch_dismantle w0) =
     Inr \<lparr>results =
            [[(''op'', JStr ''createVehicle''), (''status'', JStr ''ok''),
              (''id'', JStr ''000000000000000000000000'')],
             [(''op'', JStr ''logEvent''), (''status'', JStr ''ok''),
              (''id'', JStr ''000000000000000000000001'')]],
          server_time = Aware 1\<rparr>
   \<and> find_one ''vehicle'' ''000000000000000000000000'' (snd (sync batch_dismantle w0)) =
       Some (''000000000000000000000000'', [(''vin'', JStr ''X1'')])
   \<and> map_of [(''vin'', JStr ''X1'')] ''status'' \<noteq> Some (JStr ''dismantled'')"
  by code_simp

subsection \<open>C2: a value outside an enumeration is rejected\<close>

text \<open>
  C2 says that a creation payload whose enumerated field holds a value outside its enumeration
  is rejected with a validation error naming the field. The payload classes of
  \<^verbatim>\<open>main.py\<close> type these fields as plain strings, so \<^verbatim>\<open>POST /api/vehicles\<close> with
  status "banana", which is not a \<open>VehicleStatus\<close> of \<^verbatim>\<open>schemas.py\<close>, succeeds and
  stores the value.
\<close>

theorem post_vehicles_stores_unlisted_status:
  "''banana'' \<notin> set VehicleStatus
   \<and> fst (post_vehicles [(''status'', JStr ''banana'')] w0) =
       Inr (Some [(''engine_condition'', JStr ''unknown''), (''body_condition'', JStr ''unknown''),
                  (''damage_level'', JStr ''unknown''), (''status'', JStr ''banana''),
                  (''id'', JStr ''000000000000000000000000'')])
   \<and> colls (snd (post_vehicles [(''status'', JStr ''banana'')] w0)) ''vehicle'' =
       [(''000000000000000000000000'',
         [(''engine_condition'', JStr ''unknown''), (''body_condition'', JStr ''unknown''),
          (''damage_level'', JStr ''unknown''), (''status'', JStr ''banana'')])]"
  by code_simp

subsection \<open>C3: mutations are applied in stable timestamp order\<close>


subsection \<open>C4: an unknown op is ignored and the batch continues\<close>

text \<open>
  C4 as stated, for every batch containing an unknown op, fails where \<^verbatim>\<open>sorted\<close>
  raises: with one naive and one aware timestamp \<open>sync\<close> ends in \<^verbatim>\<open>TypeError\<close>
  before the loop, the unknown op gets no result and the other mutation is not applied.
\<close>

theorem sync_unknown_op_mixed_timestamps_raises:
  "\<not> known_op (hd batch_unknown_mixed)
   \<and> sync batch_unknown_mixed w0 = (Inl TypeError, w0)"
  by (simp add: batch_unknown_mixed_def known_op_def sync_def sorted_mutations_def comparable_def)

text \<open>
  C4, amended: for every batch whose timestamps are all aware or all naive, \<open>sync\<close> returns;
  every mutation with an unknown op has the result "ignored" with the reason "unknown op"; and
  the remaining mutations are applied as if the unknown ones were not in the batch: the same
  store, the same server time, and the same results once the ignored ones are left out.
\<close>

theorem sync_ignores_unknown_op:
  assumes "comparable ms"
  shows "\<exists>resp w'. sync ms w = (Inr resp, w')
           \<and> list_all2 (\<lambda>m r. \<not> known_op m \<longrightarrow> r = ignored_result (op m))
                (sort_key (\<lambda>m. instant (client_timestamp m)) ms) (results resp)
           \<and> sync (filter known_op ms) w =
               (Inr \<lparr>results = filter (\<lambda>r. map_of r ''status'' \<noteq> Some (JStr ''ignored''))
                                 (results resp),
                     server_time = server_time resp\<rparr>, w')"
proof -
  let ?f = "\<lambda>m. instant (client_timestamp m)"
  have s1: "sorted_mutations ms = Inr (sort_key ?f ms)"
    using assms by (simp add: sorted_mutations_Inr)
  have "sorted_mutations (filter known_op ms) = Inr (sort_key ?f (filter known_op ms))"
    using assms by (simp add: sorted_mutations_Inr comparable_filter)
  then have s2: "sorted_mutations (filter known_op ms) = Inr (filter known_op (sort_key ?f ms))"
    by (simp add: filter_sort)
  have l: "list_all2 (\<lambda>m r. \<not> known_op m \<longrightarrow> r = ignored_result (op m))
             (sort_key ?f ms) (fst (sync_loop (sort_key ?f ms) w))"
    by (rule list_all2_mono [OF sync_loop_results]) simp
  show ?thesis
    using l by (simp add: sync_Inr [OF s1] sync_Inr [OF s2] sync_loop_filter_known)
qed

text \<open>The amended C4 on a batch of an unknown op and a createVehicle.\<close>

theorem sync_ignores_unknown_op_witness:
  "comparable batch_unknown
   \<and> (\<exists>resp w'. sync batch_unknown w0 = (Inr resp, w')
         \<and> list_all2 (\<lambda>m r. \<not> known_op m \<longrightarrow> r = ignored_result (op m))
              (sort_key (\<lambda>m. instant (client_timestamp m)) batch_unknown) (results resp)
         \<and> sync (filter known_op batch_unknown) w0 =
             (Inr \<lparr>results = filter (\<lambda>r. map_of r ''status'' \<noteq> Some (JStr ''ignored''))
                               (results resp),
                   server_time = server_time resp\<rparr>, w'))"
proof -
  have h: "comparable batch_unknown"
    by (simp add: batch_unknown_def comparable_def)
  from sync_ignores_unknown_op [OF h, of w0] h show ?thesis by blast
qed

subsection \<open>C5: every mutation gets exactly one result\<close>




subsection \<open>C6: dismantling and scrap events set the status of the referenced vehicle\<close>

text \<open>
  C6: for every event logged via \<^verbatim>\<open>POST /events\<close> that carries a vehicle reference,
  event type "dismantling" sets the referenced vehicle's status to "dismantled", "scrap" sets it
  to "scrapped", both stamp \<^verbatim>\<open>updated_at\<close>, and any other event type leaves the vehicle
  unmodified. Here the payload's \<^verbatim>\<open>vehicle_id\<close> denotes the stored vehicle \<open>d\<close> with
  id \<open>v\<close> and the store accepts the event. The request then succeeds, the event is stored,
  and the vehicle found under \<open>v\<close> afterwards is \<open>d\<close> with its status set and
  \<^verbatim>\<open>updated_at\<close> set to the second clock reading of the request; for any other event type
  the vehicle collection is unchanged. No other vehicle changes in any case.
\<close>

theorem log_event_updates_referenced_vehicle:
  assumes vid: "map_of payload ''vehicle_id'' = Some (JStr s)"
      and oid: "ObjectId s = Inr v"
      and found: "find_one ''vehicle'' v w = Some (v, d)"
      and et: "map_of payload ''event_type'' = Some (JStr et)"
      and ok: "refuse w ''event'' (event_data payload w) = None"
  shows "(\<exists>r. fst (log_event payload w) = Inr r)
       \<and> colls (snd (log_event payload w)) ''event'' =
           colls w ''event'' @ [(hex24 (next_oid w), event_data payload w)]
       \<and> (et = ''dismantling'' \<longrightarrow>
            find_one ''vehicle'' v (snd (log_event payload w)) =
              Some (v, dict_set ''updated_at'' (JTime (Aware (clk w (Suc (ticks w)))))
                         (dict_set ''status'' (JStr ''dismantled'') d)))
       \<and> (et = ''scrap'' \<longrightarrow>
            find_one ''vehicle'' v (snd (log_event payload w)) =
              Some (v, dict_set ''updated_at'' (JTime (Aware (clk w (Suc (ticks w)))))
                         (dict_set ''status'' (JStr ''scrapped'') d)))
       \<and> (et \<noteq> ''dismantling'' \<and> et \<noteq> ''scrap'' \<longrightarrow>
            colls (snd (log_event payload w)) ''vehicle'' = colls w ''vehicle'')
       \<and> (\<forall>u. u \<noteq> v \<longrightarrow>
            find_one ''vehicle'' u (snd (log_event payload w)) = find_one ''vehicle'' u w)"
proof (cases "et = ''dismantling'' \<or> et = ''scrap''")
  case True
  have v': "map_of (event_data payload w) ''vehicle_id'' = Some (JStr s)"
    using vid by (simp add: map_of_event_data)
  have e': "map_of (event_data payload w) ''event_type'' = Some (JStr et)"
    using et by (simp add: map_of_event_data)
  from True e' have c: "map_of (event_data payload w) ''event_type'' = Some (JStr ''dismantling'')
      \<or> map_of (event_data payload w) ''event_type'' = Some (JStr ''scrap'')"
    by auto
  note r = log_event_rule [OF ok v' oid c]
  from r have cs: "colls (snd (log_event payload w)) =
      (colls w)
        (''event'' := colls w ''event'' @ [(hex24 (next_oid w), event_data payload w)],
         ''vehicle'' :=
            update_first v
              (\<lambda>d. dict_set ''updated_at'' (JTime (Aware (clk w (Suc (ticks w)))))
                     (dict_set ''status'' (new_status (map_of (event_data payload w) ''event_type'')) d))
              (colls w ''vehicle''))"
    by blast
  note f = find_one_rule [OF found cs]
  from r have "\<exists>r. fst (log_event payload w) = Inr r" by blast
  moreover from cs have "colls (snd (log_event payload w)) ''event'' =
      colls w ''event'' @ [(hex24 (next_oid w), event_data payload w)]"
    by simp
  ultimately show ?thesis using True f e' by (auto simp: new_status_def)
next
  case False
  have e': "map_of (event_data payload w) ''event_type'' = Some (JStr et)"
    using et by (simp add: map_of_event_data)
  from False e' have c: "\<not> (truthy (map_of (event_data payload w) ''vehicle_id'')
      \<and> (map_of (event_data payload w) ''event_type'' = Some (JStr ''dismantling'')
         \<or> map_of (event_data payload w) ''event_type'' = Some (JStr ''scrap'')))"
    by auto
  note r = log_event_plain [OF ok c]
  from r have cs: "colls (snd (log_event payload w)) =
      (colls w)(''event'' := colls w ''event'' @ [(hex24 (next_oid w), event_data payload w)])"
    by blast
  from r have "\<exists>r. fst (log_event payload w) = Inr r" by blast
  then show ?thesis using False cs by (simp add: find_one_def)
qed

text \<open>C6 on a store with one vehicle, for a dismantling, a scrap and an inspection event.\<close>

theorem log_event_updates_referenced_vehicle_witness:
  "find_one ''vehicle'' vehicle0 (snd (log_event (event_payload ''dismantling'') w_one)) =
     Some (vehicle0, [(''vin'', JStr ''X1''), (''status'', JStr ''dismantled''),
                      (''updated_at'', JTime (Aware 1))])
   \<and> find_one ''vehicle'' vehicle0 (snd (log_event (event_payload ''scrap'') w_one)) =
     Some (vehicle0, [(''vin'', JStr ''X1''), (''status'', JStr ''scrapped''),
                      (''updated_at'', JTime (Aware 1))])
   \<and> colls (snd (log_event (event_payload ''inspection'') w_one)) ''vehicle'' =
     colls w_one ''vehicle''"
proof -
  have vid: "map_of (event_payload et) ''vehicle_id'' = Some (JStr vehicle0)" for et
    by (simp add: event_payload_def)
  have et: "map_of (event_payload et) ''event_type'' = Some (JStr et)" for et
    by (simp add: event_payload_def)
  have ok: "refuse w_one ''event'' (event_data (event_payload et) w_one) = None" for et
    by (simp add: w_one_def)
  have t: "clk w_one (Suc (ticks w_one)) = 1"
    by (simp add: w_one_def)
  note th = log_event_updates_referenced_vehicle [OF vid ObjectId_vehicle0 find_one_w_one et ok]
  from th [of "''dismantling''"] th [of "''scrap''"] th [of "''inspection''"] t
  show ?thesis by simp
qed

subsection \<open>C7: an unresolvable vehicle reference skips the rule silently\<close>

text \<open>
  C7 says that an event whose vehicle reference does not resolve, a malformed id string
  included, is recorded and the rule skipped without failure. For a dismantling event with the
  vehicle id "not-an-id" the event is inserted, and then \<^verbatim>\<open>ObjectId(data["vehicle_id"])\<close>
  raises \<^verbatim>\<open>InvalidId\<close> out of \<^verbatim>\<open>log_event\<close>: the request fails.
\<close>

theorem log_event_malformed_vehicle_id_raises:
  "fst (post_events [(''event_type'', JStr ''dismantling''), (''vehicle_id'', JStr ''not-an-id'')] w0) =
     Inl (InvalidId ''not-an-id'')
   \<and> colls (snd (post_events [(''event_type'', JStr ''dismantling''),
                              (''vehicle_id'', JStr ''not-an-id'')] w0)) ''event'' =
       [(''000000000000000000000000'',
         [(''vehicle_id'', JStr ''not-an-id''), (''event_type'', JStr ''dismantling''),
          (''occurred_at'', JTime (Aware 0))])]"
  by code_simp

subsection \<open>C8: a second dismantling event is idempotent on the status\<close>

text \<open>
  C8: applying two "dismantling" events for the same vehicle in sequence leaves the vehicle at
  status "dismantled", the second neither reverting nor duplicating the effect, with
  \<^verbatim>\<open>updated_at\<close> reflecting the later event. Both requests succeed; after the first the
  vehicle is \<open>d1\<close>, with status "dismantled"; after the second it is \<open>d1\<close> with only
  \<^verbatim>\<open>updated_at\<close> replaced, by the clock reading the second request took for it (the
  fourth reading, index \<open>ticks w + 3\<close>, the first request having taken two); the
  document has the same keys in the same order.
\<close>

theorem second_dismantling_keeps_status:
  assumes v1: "map_of p1 ''vehicle_id'' = Some (JStr s1)" and o1: "ObjectId s1 = Inr v"
      and v2: "map_of p2 ''vehicle_id'' = Some (JStr s2)" and o2: "ObjectId s2 = Inr v"
      and e1: "map_of p1 ''event_type'' = Some (JStr ''dismantling'')"
      and e2: "map_of p2 ''event_type'' = Some (JStr ''dismantling'')"
      and found: "find_one ''vehicle'' v w = Some (v, d)"
      and ok1: "refuse w ''event'' (event_data p1 w) = None"
      and ok2: "refuse w ''event'' (event_data p2 (snd (log_event p1 w))) = None"
  shows "let w1 = snd (log_event p1 w);
             w2 = snd (log_event p2 w1);
             d1 = dict_set ''updated_at'' (JTime (Aware (clk w (ticks w + 1))))
                    (dict_set ''status'' (JStr ''dismantled'') d);
             d2 = dict_set ''updated_at'' (JTime (Aware (clk w (ticks w + 3)))) d1
         in (\<exists>r. fst (log_event p1 w) = Inr r) \<and> (\<exists>r. fst (log_event p2 w1) = Inr r)
            \<and> find_one ''vehicle'' v w1 = Some (v, d1)
            \<and> find_one ''vehicle'' v w2 = Some (v, d2)
            \<and> map_of d1 ''status'' = Some (JStr ''dismantled'')
            \<and> map_of d2 ''status'' = Some (JStr ''dismantled'')
            \<and> map_of d2 ''updated_at'' = Some (JTime (Aware (clk w (ticks w + 3))))
            \<and> map fst d2 = map fst d1
            \<and> ticks w1 = ticks w + 2 \<and> ticks w2 = ticks w + 4"
proof -
  define w1 where "w1 = snd (log_event p1 w)"
  define d1 where "d1 = dict_set ''updated_at'' (JTime (Aware (clk w (ticks w + 1))))
                          (dict_set ''status'' (JStr ''dismantled'') d)"
  define d2 where "d2 = dict_set ''updated_at'' (JTime (Aware (clk w (ticks w + 3)))) d1"
  have a1: "map_of (event_data p1 w) ''vehicle_id'' = Some (JStr s1)"
    using v1 by (simp add: map_of_event_data)
  have b1: "map_of (event_data p1 w) ''event_type'' = Some (JStr ''dismantling'')"
    using e1 by (simp add: map_of_event_data)
  from b1 have c1: "map_of (event_data p1 w) ''event_type'' = Some (JStr ''dismantling'')
      \<or> map_of (event_data p1 w) ''event_type'' = Some (JStr ''scrap'')" by simp
  note r1 = log_event_rule [OF ok1 a1 o1 c1]
  from r1 have cs1: "colls w1 =
      (colls w)
        (''event'' := colls w ''event'' @ [(hex24 (next_oid w), event_data p1 w)],
         ''vehicle'' :=
            update_first v
              (\<lambda>d. dict_set ''updated_at'' (JTime (Aware (clk w (Suc (ticks w)))))
                     (dict_set ''status'' (new_status (map_of (event_data p1 w) ''event_type'')) d))
              (colls w ''vehicle''))"
    unfolding w1_def by blast
  from r1 have k1: "ticks w1 = ticks w + 2" "clk w1 = clk w" "refuse w1 = refuse w"
    unfolding w1_def by simp_all
  from r1 have x1: "\<exists>r. fst (log_event p1 w) = Inr r" by blast
  have f1: "find_one ''vehicle'' v w1 = Some (v, d1)"
    using find_one_rule [OF found cs1, of v] b1 by (simp add: new_status_def d1_def)
  have st1: "map_of d1 ''status'' = Some (JStr ''dismantled'')"
    by (simp add: d1_def map_of_dict_set)
  have ok2': "refuse w1 ''event'' (event_data p2 w1) = None"
    using ok2 k1 by (simp add: w1_def)
  have a2: "map_of (event_data p2 w1) ''vehicle_id'' = Some (JStr s2)"
    using v2 by (simp add: map_of_event_data)
  have b2: "map_of (event_data p2 w1) ''event_type'' = Some (JStr ''dismantling'')"
    using e2 by (simp add: map_of_event_data)
  from b2 have c2: "map_of (event_data p2 w1) ''event_type'' = Some (JStr ''dismantling'')
      \<or> map_of (event_data p2 w1) ''event_type'' = Some (JStr ''scrap'')" by simp
  note r2 = log_event_rule [OF ok2' a2 o2 c2]
  from r2 have cs2: "colls (snd (log_event p2 w1)) =
      (colls w1)
        (''event'' := colls w1 ''event'' @ [(hex24 (next_oid w1), event_data p2 w1)],
         ''vehicle'' :=
            update_first v
              (\<lambda>d. dict_set ''updated_at'' (JTime (Aware (clk w1 (Suc (ticks w1)))))
                     (dict_set ''status'' (new_status (map_of (event_data p2 w1) ''event_type'')) d))
              (colls w1 ''vehicle''))"
    by blast
  from r2 have x2: "\<exists>r. fst (log_event p2 w1) = Inr r" by blast
  from r2 k1 have k2: "ticks (snd (log_event p2 w1)) = ticks w + 4" by simp
  have "find_one ''vehicle'' v (snd (log_event p2 w1)) =
          Some (v, dict_set ''updated_at'' (JTime (Aware (clk w (ticks w + 3))))
                     (dict_set ''status'' (JStr ''dismantled'') d1))"
  proof -
    have n3: "Suc (Suc (Suc (ticks w))) = ticks w + 3" by simp
    from find_one_rule [OF f1 cs2, of v] b2 k1 show ?thesis
      by (simp add: new_status_def n3)
  qed
  then have f2: "find_one ''vehicle'' v (snd (log_event p2 w1)) = Some (v, d2)"
    using st1 by (simp add: dict_set_same d2_def)
  have st2: "map_of d2 ''status'' = Some (JStr ''dismantled'')"
    using st1 by (simp add: d2_def map_of_dict_set)
  have u2: "map_of d2 ''updated_at'' = Some (JTime (Aware (clk w (ticks w + 3))))"
    by (simp add: d2_def map_of_dict_set)
  have "map_of d1 ''updated_at'' = Some (JTime (Aware (clk w (ticks w + 1))))"
    by (simp add: d1_def map_of_dict_set)
  then have keys: "map fst d2 = map fst d1"
    unfolding d2_def by (rule map_fst_dict_set)
  show ?thesis
    using x1 x2 f1 f2 st1 st2 u2 keys k1 k2
    unfolding Let_def w1_def [symmetric] d1_def [symmetric] d2_def [symmetric]
    by simp
qed

text \<open>C8 on a store with one vehicle and a clock reading 0, 1, 2, ...\<close>

theorem second_dismantling_keeps_status_witness:
  "find_one ''vehicle'' vehicle0 (snd (log_event (event_payload ''dismantling'') w_one)) =
     Some (vehicle0, [(''vin'', JStr ''X1''), (''status'', JStr ''dismantled''),
                      (''updated_at'', JTime (Aware 1))])
   \<and> find_one ''vehicle'' vehicle0
       (snd (log_event (event_payload ''dismantling'')
              (snd (log_event (event_payload ''dismantling'') w_one)))) =
     Some (vehicle0, [(''vin'', JStr ''X1''), (''status'', JStr ''dismantled''),
                      (''updated_at'', JTime (Aware 3))])"
proof -
  have vid: "map_of (event_payload ''dismantling'') ''vehicle_id'' = Some (JStr vehicle0)"
    by (simp add: event_payload_def)
  have et: "map_of (event_payload ''dismantling'') ''event_type'' = Some (JStr ''dismantling'')"
    by (simp add: event_payload_def)
  have ok1: "refuse w_one ''event'' (event_data (event_payload ''dismantling'') w_one) = None"
    by (simp add: w_one_def)
  have ok2: "refuse w_one ''event''
      (event_data (event_payload ''dismantling'')
         (snd (log_event (event_payload ''dismantling'') w_one))) = None"
    by (simp add: w_one_def)
  have t: "clk w_one (ticks w_one + 1) = 1" "clk w_one (ticks w_one + 3) = 3"
    by (simp_all add: w_one_def)
  from second_dismantling_keeps_status
         [OF vid ObjectId_vehicle0 vid ObjectId_vehicle0 et et find_one_w_one ok1 ok2] t
  show ?thesis by (simp add: Let_def)
qed

subsection \<open>C9: an event without occurred_at gets the server's time\<close>



subsection \<open>C10: an explicit null is not stored\<close>

text \<open>
  C10 as stated, for every field of every creation payload, fails for \<open>occurred_at\<close> of
  \<^verbatim>\<open>POST /events\<close>: the null is stripped by the dump, and \<open>log_event\<close> then sets the field
  to the server's clock reading, so the stored event does have the field.
\<close>

theorem post_events_null_occurred_at_is_stored:
  "map_of body_event_null ''occurred_at'' = Some JNull
   \<and> colls (snd (post_events body_event_null w0)) ''event'' =
       [(''000000000000000000000000'',
         [(''event_type'', JStr ''note''), (''occurred_at'', JTime (Aware 0))])]"
  by code_simp

text \<open>
  C10, amended: whenever a creation request succeeds, it appends one document to its
  collection, and every field sent as an explicit null is absent from that document, except
  \<open>occurred_at\<close> of an event, which holds the server's clock reading. An enumerated field
  sent as null is therefore neither stored as null nor as "unknown"; an enumerated field
  left out of the request is stored as "unknown".
\<close>

theorem explicit_null_fields_are_not_stored:
  "((\<exists>r. fst (post_vehicles body w) = Inr r) \<longrightarrow>
      (\<exists>d. colls (snd (post_vehicles body w)) ''vehicle'' =
              colls w ''vehicle'' @ [(hex24 (next_oid w), d)]
          \<and> (\<forall>k. map_of body k = Some JNull \<longrightarrow> map_of d k = None)
          \<and> (\<forall>k \<in> {''engine_condition'', ''body_condition'', ''damage_level'', ''status''}.
               map_of body k = None \<longrightarrow> map_of d k = Some (JStr ''unknown''))))
   \<and> ((\<exists>r. fst (post_parts body w) = Inr r) \<longrightarrow>
      (\<exists>d. colls (snd (post_parts body w)) ''part'' =
              colls w ''part'' @ [(hex24 (next_oid w), d)]
          \<and> (\<forall>k. map_of body k = Some JNull \<longrightarrow> map_of d k = None)
          \<and> (map_of body ''condition'' = None \<longrightarrow>
               map_of d ''condition'' = Some (JStr ''unknown''))))
   \<and> ((\<exists>r. fst (post_events body w) = Inr r) \<longrightarrow>
      (\<exists>d. colls (snd (post_events body w)) ''event'' =
              colls w ''event'' @ [(hex24 (next_oid w), d)]
          \<and> (\<forall>k. k \<noteq> ''occurred_at'' \<and> map_of body k = Some JNull \<longrightarrow> map_of d k = None)
          \<and> (map_of body ''occurred_at'' = Some JNull \<longrightarrow>
               map_of d ''occurred_at'' = Some (JTime (Aware (clk w (ticks w)))))))"
proof (intro conjI impI)
  assume "\<exists>r. fst (post_vehicles body w) = Inr r"
  then obtain r where r: "fst (endpoint CreateVehiclePayload create_vehicle body w) = Inr r"
    by (auto simp: post_vehicles_def)
  from endpoint_Inr [OF r] obtain p where
    v: "validate CreateVehiclePayload body = Inr p"
    and e: "post_vehicles body w = create_in ''vehicle'' p w"
    by (auto simp: post_vehicles_def create_vehicle_def)
  from r e have "fst (create_in ''vehicle'' p w) = Inr r" by (simp add: post_vehicles_def)
  from create_in_Inr [OF this] e
  have c: "colls (snd (post_vehicles body w)) ''vehicle'' =
      colls w ''vehicle'' @ [(hex24 (next_oid w), model_dump_exclude_none p)]" by simp
  have n: "\<forall>k. map_of body k = Some JNull \<longrightarrow> map_of (model_dump_exclude_none p) k = None"
    using validate_null [OF v] by blast
  have "\<forall>k \<in> {''engine_condition'', ''body_condition'', ''damage_level'', ''status''}.
          map_of body k = None \<longrightarrow> map_of (model_dump_exclude_none p) k = Some (JStr ''unknown'')"
  proof (intro ballI impI)
    fix k
    assume k: "k \<in> {''engine_condition'', ''body_condition'', ''damage_level'', ''status''}"
      and b: "map_of body k = None"
    from k have "map_of CreateVehiclePayload k = Some (Some (JStr ''unknown''))"
      by (auto simp: CreateVehiclePayload_def)
    from validate_default [OF v distinct_classes(1) this _ b]
    show "map_of (model_dump_exclude_none p) k = Some (JStr ''unknown'')" by simp
  qed
  with c n show "\<exists>d. colls (snd (post_vehicles body w)) ''vehicle'' =
              colls w ''vehicle'' @ [(hex24 (next_oid w), d)]
          \<and> (\<forall>k. map_of body k = Some JNull \<longrightarrow> map_of d k = None)
          \<and> (\<forall>k \<in> {''engine_condition'', ''body_condition'', ''damage_level'', ''status''}.
               map_of body k = None \<longrightarrow> map_of d k = Some (JStr ''unknown''))"
    by (intro exI [of _ "model_dump_exclude_none p"]) simp
next
  assume "\<exists>r. fst (post_parts body w) = Inr r"
  then obtain r where r: "fst (endpoint PartPayload register_part body w) = Inr r"
    by (auto simp: post_parts_def)
  from endpoint_Inr [OF r] obtain p where
    v: "validate PartPayload body = Inr p"
    and e: "post_parts body w = create_in ''part'' p w"
    by (auto simp: post_parts_def register_part_def)
  from r e have "fst (create_in ''part'' p w) = Inr r" by (simp add: post_parts_def)
  from create_in_Inr [OF this] e
  have c: "colls (snd (post_parts body w)) ''part'' =
      colls w ''part'' @ [(hex24 (next_oid w), model_dump_exclude_none p)]" by simp
  have n: "\<forall>k. map_of body k = Some JNull \<longrightarrow> map_of (model_dump_exclude_none p) k = None"
    using validate_null [OF v] by blast
  have "map_of PartPayload ''condition'' = Some (Some (JStr ''unknown''))"
    by (simp add: PartPayload_def)
  from validate_default [OF v distinct_classes(2) this]
  have "map_of body ''condition'' = None \<longrightarrow>
          map_of (model_dump_exclude_none p) ''condition'' = Some (JStr ''unknown'')" by simp
  with c n show "\<exists>d. colls (snd (post_parts body w)) ''part'' =
              colls w ''part'' @ [(hex24 (next_oid w), d)]
          \<and> (\<forall>k. map_of body k = Some JNull \<longrightarrow> map_of d k = None)
          \<and> (map_of body ''condition'' = None \<longrightarrow>
               map_of d ''condition'' = Some (JStr ''unknown''))"
    by (intro exI [of _ "model_dump_exclude_none p"]) simp
next
  assume "\<exists>r. fst (post_events body w) = Inr r"
  then obtain r where r: "fst (endpoint EventPayload log_event body w) = Inr r"
    by (auto simp: post_events_def)
  from endpoint_Inr [OF r] obtain p where
    v: "validate EventPayload body = Inr p"
    and e: "post_events body w = log_event p w"
    by (auto simp: post_events_def)
  from r e have "fst (log_event p w) = Inr r" by (simp add: post_events_def)
  from log_event_Inr [OF this] e
  have c: "colls (snd (post_events body w)) ''event'' =
      colls w ''event'' @ [(hex24 (next_oid w), event_data p w)]" by simp
  have n: "\<forall>k. k \<noteq> ''occurred_at'' \<and> map_of body k = Some JNull \<longrightarrow>
             map_of (event_data p w) k = None"
    using validate_null [OF v] by (auto simp: event_data_def map_of_setdefault)
  have "map_of body ''occurred_at'' = Some JNull \<longrightarrow>
          map_of (event_data p w) ''occurred_at'' = Some (JTime (Aware (clk w (ticks w))))"
    using validate_null [OF v] by (auto simp: event_data_def map_of_setdefault)
  with c n show "\<exists>d. colls (snd (post_events body w)) ''event'' =
              colls w ''event'' @ [(hex24 (next_oid w), d)]
          \<and> (\<forall>k. k \<noteq> ''occurred_at'' \<and> map_of body k = Some JNull \<longrightarrow> map_of d k = None)
          \<and> (map_of body ''occurred_at'' = Some JNull \<longrightarrow>
               map_of d ''occurred_at'' = Some (JTime (Aware (clk w (ticks w)))))"
    by (intro exI [of _ "event_data p w"]) simp
qed

text \<open>
  The amended C10 on a vehicle with a null \<open>status\<close>, a part with a null \<open>serial_number\<close>
  and an event with a null \<open>notes\<close> and a null \<open>occurred_at\<close>.
\<close>

theorem explicit_null_fields_are_not_stored_witness:
  "(\<exists>r. fst (post_vehicles body_vehicle_null w0) = Inr r)
   \<and> map_of body_vehicle_null ''status'' = Some JNull
   \<and> map_of body_vehicle_null ''engine_condition'' = None
   \<and> (\<exists>d. colls (snd (post_vehicles body_vehicle_null w0)) ''vehicle'' =
             colls w0 ''vehicle'' @ [(hex24 (next_oid w0), d)]
         \<and> map_of d ''status'' = None
         \<and> map_of d ''engine_condition'' = Some (JStr ''unknown''))
   \<and> (\<exists>r. fst (post_parts body_part_null w0) = Inr r)
   \<and> map_of body_part_null ''serial_number'' = Some JNull
   \<and> map_of body_part_null ''condition'' = None
   \<and> (\<exists>d. colls (snd (post_parts body_part_null w0)) ''part'' =
             colls w0 ''part'' @ [(hex24 (next_oid w0), d)]
         \<and> map_of d ''serial_number'' = None
         \<and> map_of d ''condition'' = Some (JStr ''unknown''))
   \<and> (\<exists>r. fst (post_events body_event_null w0) = Inr r)
   \<and> map_of body_event_null ''notes'' = Some JNull
   \<and> map_of body_event_null ''occurred_at'' = Some JNull
   \<and> (\<exists>d. colls (snd (post_events body_event_null w0)) ''event'' =
             colls w0 ''event'' @ [(hex24 (next_oid w0), d)]
         \<and> map_of d ''notes'' = None
         \<and> map_of d ''occurred_at'' = Some (JTime (Aware (clk w0 (ticks w0)))))"
proof -
  have "\<not> isl (fst (post_vehicles body_vehicle_null w0))" by code_simp
  then have h1: "\<exists>r. fst (post_vehicles body_vehicle_null w0) = Inr r"
    by (cases "fst (post_vehicles body_vehicle_null w0)") auto
  have "\<not> isl (fst (post_parts body_part_null w0))" by code_simp
  then have h2: "\<exists>r. fst (post_parts body_part_null w0) = Inr r"
    by (cases "fst (post_parts body_part_null w0)") auto
  have "\<not> isl (fst (post_events body_event_null w0))" by code_simp
  then have h3: "\<exists>r. fst (post_events body_event_null w0) = Inr r"
    by (cases "fst (post_events body_event_null w0)") auto
  have b1: "map_of body_vehicle_null ''status'' = Some JNull"
    "map_of body_vehicle_null ''engine_condition'' = None"
    by (simp_all add: body_vehicle_null_def)
  have b2: "map_of body_part_null ''serial_number'' = Some JNull"
    "map_of body_part_null ''condition'' = None"
    by (simp_all add: body_part_null_def)
  have b3: "map_of body_event_null ''notes'' = Some JNull"
    "map_of body_event_null ''occurred_at'' = Some JNull"
    by (simp_all add: body_event_null_def)
  note t1 = explicit_null_fields_are_not_stored [of body_vehicle_null w0]
  from t1 [THEN conjunct1, THEN mp, OF h1] obtain d1 where
    d1c: "colls (snd (post_vehicles body_vehicle_null w0)) ''vehicle'' =
           colls w0 ''vehicle'' @ [(hex24 (next_oid w0), d1)]
      \<and> (\<forall>k. map_of body_vehicle_null k = Some JNull \<longrightarrow> map_of d1 k = None)
      \<and> (\<forall>k \<in> {''engine_condition'', ''body_condition'', ''damage_level'', ''status''}.
         map_of body_vehicle_null k = None \<longrightarrow> map_of d1 k = Some (JStr ''unknown''))" ..
  note d1 = d1c [THEN conjunct1] d1c [THEN conjunct2, THEN conjunct1] d1c [THEN conjunct2, THEN conjunct2]
  from d1(2) b1(1) have n1: "map_of d1 ''status'' = None" by simp
  from d1(3) b1(2) have u1: "map_of d1 ''engine_condition'' = Some (JStr ''unknown'')" by simp
  note t2 = explicit_null_fields_are_not_stored [of body_part_null w0]
  from t2 [THEN conjunct2, THEN conjunct1, THEN mp, OF h2] obtain d2 where
    d2c: "colls (snd (post_parts body_part_null w0)) ''part'' =
           colls w0 ''part'' @ [(hex24 (next_oid w0), d2)]
      \<and> (\<forall>k. map_of body_part_null k = Some JNull \<longrightarrow> map_of d2 k = None)
      \<and> (map_of body_part_null ''condition'' = None \<longrightarrow>
         map_of d2 ''condition'' = Some (JStr ''unknown''))" ..
  note d2 = d2c [THEN conjunct1] d2c [THEN conjunct2, THEN conjunct1] d2c [THEN conjunct2, THEN conjunct2]
  from d2(2) b2(1) have n2: "map_of d2 ''serial_number'' = None" by simp
  from d2(3) b2(2) have u2: "map_of d2 ''condition'' = Some (JStr ''unknown'')" by simp
  note t3 = explicit_null_fields_are_not_stored [of body_event_null w0]
  from t3 [THEN conjunct2, THEN conjunct2, THEN mp, OF h3] obtain d3 where
    d3c: "colls (snd (post_events body_event_null w0)) ''event'' =
           colls w0 ''event'' @ [(hex24 (next_oid w0), d3)]
      \<and> (\<forall>k. k \<noteq> ''occurred_at'' \<and> map_of body_event_null k = Some JNull \<longrightarrow>
           map_of d3 k = None)
      \<and> (map_of body_event_null ''occurred_at'' = Some JNull \<longrightarrow>
         map_of d3 ''occurred_at'' = Some (JTime (Aware (clk w0 (ticks w0)))))" ..
  note d3 = d3c [THEN conjunct1] d3c [THEN conjunct2, THEN conjunct1] d3c [THEN conjunct2, THEN conjunct2]
  from d3(2) b3(1) have n3: "map_of d3 ''notes'' = None" by simp
  from d3(3) b3(2) have u3: "map_of d3 ''occurred_at'' = Some (JTime (Aware (clk w0 (ticks w0))))"
    by simp
  have v: "\<exists>d. colls (snd (post_vehicles body_vehicle_null w0)) ''vehicle'' =
             colls w0 ''vehicle'' @ [(hex24 (next_oid w0), d)]
         \<and> map_of d ''status'' = None
         \<and> map_of d ''engine_condition'' = Some (JStr ''unknown'')"
    using d1(1) n1 u1 by (intro exI [of _ d1]) simp
  have p: "\<exists>d. colls (snd (post_parts body_part_null w0)) ''part'' =
             colls w0 ''part'' @ [(hex24 (next_oid w0), d)]
         \<and> map_of d ''serial_number'' = None
         \<and> map_of d ''condition'' = Some (JStr ''unknown'')"
    using d2(1) n2 u2 by (intro exI [of _ d2]) simp
  have e: "\<exists>d. colls (snd (post_events body_event_null w0)) ''event'' =
             colls w0 ''event'' @ [(hex24 (next_oid w0), d)]
         \<and> map_of d ''notes'' = None
         \<and> map_of d ''occurred_at'' = Some (JTime (Aware (clk w0 (ticks w0))))"
    using d3(1) n3 u3 by (intro exI [of _ d3]) simp
  from h1 b1 v h2 b2 p h3 b3 e show ?thesis by (intro conjI)
qed

end
